theory Spec2Isabelle
  imports Main "HOL-Library.Word"
begin

section \<open>Byte buffers and the skip transform\<close>

text \<open>
  A Node \<^verbatim>\<open>Buffer\<close> is a sequence of bytes; a stream delivers a sequence of
  buffers (chunks). The JavaScript numbers of this code count bytes and attempts; they
  are modelled as \<^typ>\<open>int\<close> in the range where doubles are exact (magnitude at most
  \<open>2\<^sup>5\<^sup>3\<close>), and the model of the download stops where a number read from a header
  or computed from one would leave that range.
\<close>

type_synonym byte = "8 word"
type_synonym buffer = "byte list"

text \<open>
  \<^verbatim>\<open>createSkipTransform(skipBytes)\<close>, \<^verbatim>\<open>src/misc.ts\<close>: the body of
  \<^verbatim>\<open>transform (chunk, _encoding, callback)\<close>. The closure variable
  \<^verbatim>\<open>skipped\<close> is passed in and returned; the second component is the chunk
  handed to \<^verbatim>\<open>callback\<close>, \<open>None\<close> for the bare \<^verbatim>\<open>callback()\<close>.
\<close>

definition transform :: "int \<Rightarrow> int \<Rightarrow> buffer \<Rightarrow> int \<times> buffer option" where
  "transform skipBytes skipped chunk =
     (if skipped < skipBytes then
        (let remaining = skipBytes - skipped in
         if int (length chunk) \<le> remaining
         then (skipped + int (length chunk), None)
         else (skipBytes, Some (drop (nat remaining) chunk)))
      else (skipped, Some chunk))"

text \<open>The transform applied to the chunks of its input stream, in order.\<close>

fun skip_stream :: "int \<Rightarrow> int \<Rightarrow> buffer list \<Rightarrow> buffer list" where
  "skip_stream skipBytes skipped [] = []"
| "skip_stream skipBytes skipped (chunk # rest) =
     (case transform skipBytes skipped chunk of
        (skipped', None) \<Rightarrow> skip_stream skipBytes skipped' rest
      | (skipped', Some out) \<Rightarrow> out # skip_stream skipBytes skipped' rest)"

text \<open>A fresh transform starts with \<^verbatim>\<open>skipped = 0\<close>.\<close>

definition createSkipTransform :: "int \<Rightarrow> buffer list \<Rightarrow> buffer list" where
  "createSkipTransform skipBytes chunks = skip_stream skipBytes 0 chunks"

section \<open>Parsing the Content-Range header\<close>

text \<open>
  \<^verbatim>\<open>parseContentRange\<close> matches \<^verbatim>\<open>/bytes (\d+)-(\d+)\/(\d+)/\<close> anywhere in the
  header value and converts the three groups with \<^verbatim>\<open>Number\<close>. The regular expression is
  written out: \<^verbatim>\<open>\d+\<close> is a longest non-empty run of decimal digits (a shorter run
  cannot be followed by the literal that comes next), and the search takes the leftmost
  position at which the pattern matches.
\<close>

definition digit_value :: "char \<Rightarrow> nat option" where
  "digit_value c = map_of (zip ''0123456789'' [0, 1, 2, 3, 4, 5, 6, 7, 8, 9]) c"

definition is_digit :: "char \<Rightarrow> bool" where
  "is_digit c = (digit_value c \<noteq> None)"

text \<open>The integer a string of decimal digits denotes.\<close>

definition decimal :: "string \<Rightarrow> int" where
  "decimal ds = foldl (\<lambda>n c. 10 * n + (case digit_value c of None \<Rightarrow> 0 | Some d \<Rightarrow> int d)) 0 ds"

text \<open>
  A JavaScript number is an IEEE double. Every integer of magnitude at most \<open>2\<^sup>5\<^sup>3\<close> is a
  double, and an operation on doubles whose mathematical result is such an integer yields
  that integer; beyond, results are rounded. \<open>exact n\<close> says that \<open>n\<close> is in the range
  where nothing is rounded.
\<close>

definition exact :: "int \<Rightarrow> bool" where
  "exact n = (- (2 ^ 53) \<le> n \<and> n \<le> 2 ^ 53)"

text \<open>
  \<^verbatim>\<open>Number(s)\<close> on a string of decimal digits is the double nearest to the integer the
  string denotes: that integer itself, \<open>Some n\<close>, while it is in the exact range, and a
  rounded value or \<^verbatim>\<open>Infinity\<close> beyond it, which this model does not compute: \<open>None\<close>.
\<close>

definition Number :: "string \<Rightarrow> int option" where
  "Number ds = (if exact (decimal ds) then Some (decimal ds) else None)"

record range =
  r_start :: int
  r_end :: int
  r_total :: int

text \<open>
  The outcome of parsing: the pattern does not match (\<open>Invalid\<close>, the thrown
  \<^verbatim>\<open>Error('Invalid content range')\<close>), it matches and the three numbers are exact
  (\<open>Parsed\<close>), or it matches and one of the numbers is beyond the exact range
  (\<open>Inexact\<close>: the code goes on with rounded numbers, the model stops there).
\<close>

datatype parsed = Invalid | Inexact | Parsed range

definition strip_literal :: "string \<Rightarrow> string \<Rightarrow> string option" where
  "strip_literal lit s =
     (if take (length lit) s = lit then Some (drop (length lit) s) else None)"

text \<open>The three groups converted.\<close>

definition converted :: "string \<Rightarrow> string \<Rightarrow> string \<Rightarrow> parsed" where
  "converted d1 d2 d3 =
     (case Number d1 of
        None \<Rightarrow> Inexact
      | Some actualStart \<Rightarrow>
          (case Number d2 of
             None \<Rightarrow> Inexact
           | Some actualEnd \<Rightarrow>
               (case Number d3 of
                  None \<Rightarrow> Inexact
                | Some actualTotal \<Rightarrow>
                    Parsed \<lparr>r_start = actualStart, r_end = actualEnd,
                            r_total = actualTotal\<rparr>)))"

text \<open>The pattern matched at the beginning of \<open>s\<close>.\<close>

definition match_here :: "string \<Rightarrow> parsed" where
  "match_here s =
     (case strip_literal ''bytes '' s of
        None \<Rightarrow> Invalid
      | Some s1 \<Rightarrow>
          (let d1 = takeWhile is_digit s1 in
           if d1 = [] then Invalid
           else (case strip_literal ''-'' (dropWhile is_digit s1) of
              None \<Rightarrow> Invalid
            | Some s2 \<Rightarrow>
                (let d2 = takeWhile is_digit s2 in
                 if d2 = [] then Invalid
                 else (case strip_literal ''/'' (dropWhile is_digit s2) of
                    None \<Rightarrow> Invalid
                  | Some s3 \<Rightarrow>
                      (let d3 = takeWhile is_digit s3 in
                       if d3 = [] then Invalid
                       else converted d1 d2 d3))))))"

text \<open>\<^verbatim>\<open>parseContentRange(contentRange)\<close>.\<close>

fun parseContentRange :: "string \<Rightarrow> parsed" where
  "parseContentRange [] = Invalid"
| "parseContentRange (c # cs) =
     (case match_here (c # cs) of
        Invalid \<Rightarrow> parseContentRange cs
      | Inexact \<Rightarrow> Inexact
      | Parsed r \<Rightarrow> Parsed r)"

section \<open>Responses, session state and the process-wide state\<close>

text \<open>
  The headers this code reads from an \<^verbatim>\<open>http.IncomingMessage\<close>. Node's parser
  admits only decimal digits in Content-Length, so its numeric value is a natural
  number; \<open>None\<close> is an absent header. The code reads it with \<^verbatim>\<open>Number\<close>, so it
  is the double nearest to that number; the download tests its sign and, on a 200
  response, keeps it as the expected total.
\<close>

record headers =
  location :: "string option"
  accept_ranges :: "string option"
  content_length :: "nat option"
  content_range :: "string option"

text \<open>
  The response to a HEAD request, and the response to a GET request with the chunks its
  body delivers; \<open>complete = False\<close> is a body whose stream fails after these chunks
  (reset, timeout, abort), so that \<^verbatim>\<open>pipeline\<close> rejects.
\<close>

record head_response =
  statusCode :: nat
  headers :: headers

record response = head_response +
  body :: "buffer list"
  complete :: bool

text \<open>One call of \<^verbatim>\<open>fetch(url, requestOptions, proxyUrl)\<close>: it rejects or it resolves.\<close>

datatype exchange = NoResponse | Response response

datatype error =
    FallbackError string
  | TransportError
  | StatusNotAllowed nat
  | NegativeLength
  | SizeMismatch int int
  | RangeGap int int
  | UnexpectedStatus nat
  | NonChunkedFailed error
  | ChunkFailed error
  | FinishFailed
  | TtlExpired
  | NoLocation
  | InvalidUrl
  | UnknownProtocol string

text \<open>The local variables of \<^verbatim>\<open>downloadFileInChunks\<close> that the loop updates.\<close>

record session =
  expectedTotal :: "int option"
  start :: int
  downSize :: int
  retries :: int
  useRange :: bool
  useChunked :: bool

text \<open>
  What outlives one statement of the session: the module-level set
  \<^verbatim>\<open>unsupportedRangeDomains\<close>, the flag \<^verbatim>\<open>CONFIG.NO_SLICE_DOWN\<close>, and the
  session's scratch file \<^verbatim>\<open>tmpFile\<close> (\<open>None\<close>: no such file).
\<close>

record world =
  unsupportedRangeDomains :: "string set"
  NO_SLICE_DOWN :: bool
  tmpFile :: "buffer option"

section \<open>One pass of the download loop\<close>

text \<open>
  \<^verbatim>\<open>stat(tmpFile).then(stats => stats.size).catch(() => 0)\<close> and the adjustment of
  \<^verbatim>\<open>downSize\<close> and \<^verbatim>\<open>start\<close> that opens every pass.
\<close>

definition fileStats :: "world \<Rightarrow> int" where
  "fileStats w = (case tmpFile w of None \<Rightarrow> 0 | Some f \<Rightarrow> int (length f))"

definition remeasure :: "session \<Rightarrow> world \<Rightarrow> session" where
  "remeasure st w =
     (if fileStats w \<noteq> downSize st
      then st\<lparr>downSize := fileStats w, start := fileStats w\<rparr>
      else st)"

text \<open>
  The Range header of the request: \<open>Some n\<close> is \<^verbatim>\<open>Range: bytes=n-\<close>, \<open>None\<close> is
  a request without the header.
\<close>

definition rangeHeader :: "session \<Rightarrow> int option" where
  "rangeHeader st = (if useRange st then Some (start st) else None)"

text \<open>
  \<^verbatim>\<open>pipeline(..., writeStream, { end: false, signal })\<close>: the chunks that arrive are
  appended to the scratch file.
\<close>

definition pipeline :: "buffer list \<Rightarrow> world \<Rightarrow> world" where
  "pipeline chunks w = w\<lparr>tmpFile := map_option (\<lambda>f. f @ concat chunks) (tmpFile w)\<rparr>"

text \<open>
  How the \<^verbatim>\<open>try\<close> block ends: it reaches the loop condition (at its end or through
  \<^verbatim>\<open>continue\<close>), it leaves the loop with \<^verbatim>\<open>break\<close>, or it throws. \<open>Beyond\<close>
  is not an end of the code: it marks the point where a number leaves the exact range
  and the model stops following the code.
\<close>

datatype completion = Next | Break | Raise error | Beyond

definition allowStatusCode :: "nat list" where
  "allowStatusCode = [200, 206]"

text \<open>
  The 206 branch once the header is parsed and the total is accepted. The sums and
  differences of the code are those of doubles; they are the integer results written here
  while these are in the exact range, and the model stops (\<open>Beyond\<close>) before the first
  one that is not.
\<close>

definition range_body :: "session \<Rightarrow> world \<Rightarrow> response \<Rightarrow> range \<Rightarrow> completion \<times> session \<times> world" where
  "range_body st w res r =
     (if r_start r \<noteq> start st then
        (if r_start r > start st then (Raise (RangeGap (start st) (r_start r)), st, w)
         else
           (let skipBytes = start st - r_start r;
                span = r_end r - r_start r + 1 - skipBytes;
                d = downSize st + span
            in if \<not> (exact skipBytes \<and> exact (r_end r - r_start r + 1) \<and> exact span
                      \<and> exact d)
               then (Beyond, st, w)
               else
                 (let w' = pipeline (createSkipTransform skipBytes (body res)) w
                  in if \<not> complete res then (Raise TransportError, st, w')
                     else (Next, st\<lparr>downSize := d, start := d, retries := 3\<rparr>, w'))))
      else
        (let span = r_end r - start st + 1;
             d = downSize st + span
         in if \<not> (exact span \<and> exact d) then (Beyond, st, w)
            else
              (let w' = pipeline (body res) w
               in if \<not> complete res then (Raise TransportError, st, w')
                  else (Next, st\<lparr>downSize := d, start := d, retries := 3\<rparr>, w'))))"

definition on_206 :: "session \<Rightarrow> world \<Rightarrow> response \<Rightarrow> completion \<times> session \<times> world" where
  "on_206 st w res =
     (case content_range (headers res) of
        None \<Rightarrow> (Raise (FallbackError ''Missing Content-Range header''), st, w)
      | Some contentRange \<Rightarrow>
          if contentRange = [] then
            (Raise (FallbackError ''Missing Content-Range header''), st, w)
          else
            (case parseContentRange contentRange of
               Invalid \<Rightarrow> (Raise (FallbackError ''Invalid Content-Range''), st, w)
             | Inexact \<Rightarrow> (Beyond, st, w)
             | Parsed r \<Rightarrow>
                 (case expectedTotal st of
                    None \<Rightarrow>
                      range_body (st\<lparr>expectedTotal := Some (r_total r), useChunked := True\<rparr>)
                        w res r
                  | Some expected \<Rightarrow>
                      if r_total r \<noteq> expected then
                        (Raise (SizeMismatch expected (r_total r)), st, w)
                      else range_body (st\<lparr>useChunked := True\<rparr>) w res r)))"

text \<open>
  The 200 branch. A Content-Length beyond the exact range is kept by the code as a
  rounded number; the model stops there.
\<close>

definition on_200 :: "session \<Rightarrow> world \<Rightarrow> response \<Rightarrow> int \<Rightarrow> completion \<times> session \<times> world" where
  "on_200 st w res contentLength =
     (if \<not> exact contentLength then (Beyond, st, w)
      else
        (let restart = (useChunked st \<or> start st > 0);
             st1 = (if restart then st\<lparr>start := 0, downSize := 0\<rparr> else st);
             w1 = (if restart then w\<lparr>tmpFile := Some []\<rparr> else w);
             st2 = st1\<lparr>expectedTotal := Some contentLength\<rparr>;
             w2 = pipeline (body res) w1
         in if \<not> complete res then (Raise TransportError, st2, w2)
            else (Break, st2\<lparr>downSize := contentLength\<rparr>, w2)))"

text \<open>The \<^verbatim>\<open>try\<close> block.\<close>

definition attempt :: "session \<Rightarrow> world \<Rightarrow> exchange \<Rightarrow> completion \<times> session \<times> world" where
  "attempt st w ex =
     (case ex of
        NoResponse \<Rightarrow> (Raise TransportError, st, w)
      | Response res \<Rightarrow>
          if statusCode res = 416 then
            (Raise (FallbackError ''416 Range Not Satisfiable''), st, w)
          else if statusCode res \<notin> set allowStatusCode then
            (Raise (StatusNotAllowed (statusCode res)), st, w)
          else
            (let contentLength =
                   (case content_length (headers res) of None \<Rightarrow> 0 | Some n \<Rightarrow> int n)
             in if \<not> contentLength \<ge> 0 then (Raise NegativeLength, st, w)
                else if statusCode res = 206 then on_206 st w res
                else if statusCode res = 200 then on_200 st w res contentLength
                else (Raise (UnexpectedStatus (statusCode res)), st, w)))"

text \<open>
  The \<^verbatim>\<open>catch\<close> block. A \<^verbatim>\<open>FallbackError\<close> records the host, removes the scratch
  file and either gives up (no Range header was sent) or starts over without Range;
  every other error is charged to \<^verbatim>\<open>retries\<close>.
\<close>

definition is_fallback :: "error \<Rightarrow> bool" where
  "is_fallback e = (case e of FallbackError _ \<Rightarrow> True | _ \<Rightarrow> False)"

definition recover :: "string \<Rightarrow> error \<Rightarrow> session \<Rightarrow> world \<Rightarrow> completion \<times> session \<times> world" where
  "recover hostname e st w =
     (if is_fallback e then
        (let w1 = w\<lparr>unsupportedRangeDomains := insert hostname (unsupportedRangeDomains w),
                     tmpFile := None\<rparr>
         in if \<not> useRange st then (Raise (NonChunkedFailed e), st, w1)
            else
              (Next,
               st\<lparr>expectedTotal := None, downSize := 0, start := 0, useChunked := False,
                  useRange := False, retries := 3\<rparr>,
               w1\<lparr>tmpFile := Some []\<rparr>))
      else
        (let st1 = st\<lparr>retries := retries st - 1\<rparr>
         in if retries st1 \<le> 0 then (Raise (ChunkFailed e), st1, w\<lparr>tmpFile := None\<rparr>)
            else (Next, st1, w)))"

text \<open>
  The body of the \<^verbatim>\<open>do ... while\<close> loop. The assertion on
  \<^verbatim>\<open>requestOptions.headers\<close> in front of the \<^verbatim>\<open>try\<close> block cannot fail:
  \<^verbatim>\<open>requestBaseOptions\<close> starts from \<^verbatim>\<open>headers: {}\<close> and \<^verbatim>\<open>httpStream\<close> passes
  a headers object.
\<close>

definition iteration :: "string \<Rightarrow> session \<Rightarrow> world \<Rightarrow> exchange \<Rightarrow> completion \<times> session \<times> world" where
  "iteration hostname st w ex =
     (case attempt (remeasure st w) w ex of
        (Raise e, st', w') \<Rightarrow> recover hostname e st' w'
      | (c, st', w') \<Rightarrow> (c, st', w'))"

text \<open>The loop condition \<^verbatim>\<open>expectedTotal === null || downSize < expectedTotal\<close>.\<close>

definition unfinished :: "session \<Rightarrow> bool" where
  "unfinished st = (case expectedTotal st of None \<Rightarrow> True | Some t \<Rightarrow> downSize st < t)"

section \<open>The whole download\<close>

text \<open>
  The result of a call: the stream handed back (over the scratch file as it then is),
  the error it rejects with, or \<open>Pending\<close> when the exchanges listed are used up and
  the loop would send another request; \<open>Unmodelled\<close> when a pass ended in \<open>Beyond\<close>.
  It is kept with the state it leaves behind and the Range headers of the requests sent,
  in order.
\<close>

datatype outcome = Returned "buffer option" | Rejected error | Pending | Unmodelled

record run =
  outcome :: outcome
  final :: world
  requests :: "int option list"

definition sent :: "int option \<Rightarrow> run \<Rightarrow> run" where
  "sent req r = r\<lparr>requests := req # requests r\<rparr>"

text \<open>
  After the loop: \<^verbatim>\<open>writeStream.end()\<close> and
  \<^verbatim>\<open>await once(writeStream, 'finish', { signal })\<close>, which rejects when the sink
  fails while it is flushed (\<open>finish = False\<close>); then the read stream is opened. The
  guard in front of the two statements holds on every path of the loop: each
  \<^verbatim>\<open>writeStream.destroy()\<close> there is followed by a \<^verbatim>\<open>throw\<close> or by a new write
  stream. The \<^verbatim>\<open>rm\<close> of the scratch file waits for the read stream to close, so the
  file is still there when the call returns.
\<close>

definition finalize :: "world \<Rightarrow> bool \<Rightarrow> run" where
  "finalize w finish =
     (if finish then \<lparr>outcome = Returned (tmpFile w), final = w, requests = []\<rparr>
      else \<lparr>outcome = Rejected FinishFailed, final = w, requests = []\<rparr>)"

text \<open>
  The loop, driven by the exchanges the network produces, one per pass. The server is
  free to answer a request in any way, so the list is arbitrary.
\<close>

fun download_loop :: "string \<Rightarrow> session \<Rightarrow> world \<Rightarrow> exchange list \<Rightarrow> bool \<Rightarrow> run" where
  "download_loop hostname st w [] finish =
     \<lparr>outcome = Pending, final = w, requests = []\<rparr>"
| "download_loop hostname st w (ex # exs) finish =
     sent (rangeHeader (remeasure st w))
       (case iteration hostname st w ex of
          (Raise e, st', w') \<Rightarrow> \<lparr>outcome = Rejected e, final = w', requests = []\<rparr>
        | (Beyond, st', w') \<Rightarrow> \<lparr>outcome = Unmodelled, final = w', requests = []\<rparr>
        | (Break, st', w') \<Rightarrow> finalize w' finish
        | (Next, st', w') \<Rightarrow>
            if unfinished st' then download_loop hostname st' w' exs finish
            else finalize w' finish)"

definition initial_session :: "string \<Rightarrow> world \<Rightarrow> session" where
  "initial_session hostname w =
     \<lparr>expectedTotal = None, start = 0, downSize = 0, retries = 3,
      useRange = (hostname \<notin> unsupportedRangeDomains w), useChunked = False\<rparr>"

definition downloadFileInChunks :: "string \<Rightarrow> world \<Rightarrow> exchange list \<Rightarrow> bool \<Rightarrow> run" where
  "downloadFileInChunks hostname w exs finish =
     download_loop hostname (initial_session hostname w) (w\<lparr>tmpFile := Some []\<rparr>) exs finish"

section \<open>The header probe\<close>

text \<open>
  \<^verbatim>\<open>/^3/.test(String(res.statusCode))\<close>: the decimal notation of the status begins
  with the digit 3.
\<close>

function leading_digit :: "nat \<Rightarrow> nat" where
  "leading_digit n = (if n < 10 then n else leading_digit (n div 10))"
  by pat_completeness auto
termination
  by (relation "measure id") auto

declare leading_digit.simps [simp del]

definition is_redirect :: "nat \<Rightarrow> bool" where
  "is_redirect status = (leading_digit status = 3)"

text \<open>
  The loop of \<^verbatim>\<open>httpHeadHeader\<close>. \<open>net url\<close> is the outcome of the HEAD request
  \<^verbatim>\<open>fetch(url, { headers, method: 'HEAD' }, proxyUrl)\<close>, and \<open>resolve loc url\<close> is
  \<^verbatim>\<open>new URL(loc, url).toString()\<close> (\<open>None\<close> when the constructor throws); both
  belong to the platform and are parameters. \<^verbatim>\<open>REDIRECT_TTL-- <= 0\<close> compares and
  then decrements, so the next pass sees the counter one lower.
\<close>

function head_loop ::
  "(string \<Rightarrow> error + head_response) \<Rightarrow> (string \<Rightarrow> string \<Rightarrow> string option) \<Rightarrow>
   string \<Rightarrow> int \<Rightarrow> string \<Rightarrow> error + headers" where
  "head_loop net resolve originUrl REDIRECT_TTL url =
     (if REDIRECT_TTL \<le> 0 then Inl TtlExpired
      else
        (case net url of
           Inl e \<Rightarrow> Inl e
         | Inr res \<Rightarrow>
             if \<not> is_redirect (statusCode res) then
               Inr (if originUrl \<noteq> url then (headers res)\<lparr>location := Some url\<rparr>
                    else headers res)
             else
               (case location (headers res) of
                  None \<Rightarrow> Inl NoLocation
                | Some loc \<Rightarrow>
                    if loc = [] then Inl NoLocation
                    else
                      (case resolve loc url of
                         None \<Rightarrow> Inl InvalidUrl
                       | Some target \<Rightarrow>
                           head_loop net resolve originUrl (REDIRECT_TTL - 1) target))))"
  by pat_completeness auto
termination
  by (relation "measure (\<lambda>(net, resolve, originUrl, REDIRECT_TTL, url). nat REDIRECT_TTL)") auto

declare head_loop.simps [simp del]

definition httpHeadHeader ::
  "(string \<Rightarrow> error + head_response) \<Rightarrow> (string \<Rightarrow> string \<Rightarrow> string option) \<Rightarrow>
   string \<Rightarrow> error + headers" where
  "httpHeadHeader net resolve url = head_loop net resolve url 7 url"

section \<open>The fetch as a stream\<close>

text \<open>The parts of \<^verbatim>\<open>new URL(url)\<close> that \<^verbatim>\<open>httpStream\<close> reads.\<close>

record url_parts =
  url_protocol :: string
  url_hostname :: string
  url_port :: string

definition hostKey :: "url_parts \<Rightarrow> string" where
  "hostKey u =
     url_hostname u @ '':'' @
       (if url_port u \<noteq> [] then url_port u
        else if url_protocol u = ''https:'' then ''443'' else ''80'')"

text \<open>\<^verbatim>\<open>if (headHeaders.location) { url = headHeaders.location }\<close>.\<close>

definition final_address :: "headers \<Rightarrow> string \<Rightarrow> string" where
  "final_address headHeaders url =
     (case location headHeaders of
        None \<Rightarrow> url
      | Some loc \<Rightarrow> if loc \<noteq> [] then loc else url)"

text \<open>
  \<^verbatim>\<open>httpStream\<close>: the probe, the substitution of the redirect target, the check of
  the protocol (\<^verbatim>\<open>getProtocol\<close>), the host key, and the download. Nothing of the
  probe's headers but \<^verbatim>\<open>location\<close> is read, and \<^verbatim>\<open>CONFIG.NO_SLICE_DOWN\<close> is
  not read. \<open>parse\<close> is the URL parser of the platform.
\<close>

definition httpStream ::
  "(string \<Rightarrow> error + head_response) \<Rightarrow> (string \<Rightarrow> string \<Rightarrow> string option) \<Rightarrow>
   (string \<Rightarrow> url_parts option) \<Rightarrow> world \<Rightarrow> string \<Rightarrow> exchange list \<Rightarrow> bool \<Rightarrow> run" where
  "httpStream net resolve parse w url exs finish =
     (case httpHeadHeader net resolve url of
        Inl e \<Rightarrow> \<lparr>outcome = Rejected e, final = w, requests = []\<rparr>
      | Inr headHeaders \<Rightarrow>
          (case parse (final_address headHeaders url) of
             None \<Rightarrow> \<lparr>outcome = Rejected InvalidUrl, final = w, requests = []\<rparr>
           | Some u \<Rightarrow>
               if url_protocol u \<notin> {''http:'', ''https:''} then
                 \<lparr>outcome = Rejected (UnknownProtocol (url_protocol u)), final = w,
                  requests = []\<rparr>
               else downloadFileInChunks (hostKey u) w exs finish))"

section \<open>Inputs used in the examples\<close>

text \<open>A process that has recorded no host and holds no scratch file.\<close>

definition fresh_world :: world where
  "fresh_world = \<lparr>unsupportedRangeDomains = {}, NO_SLICE_DOWN = False, tmpFile = None\<rparr>"

text \<open>
  A response with the given status, Content-Range header and body chunks, whose
  Content-Length is the length of the body and whose body arrives whole.
\<close>

definition reply :: "nat \<Rightarrow> string option \<Rightarrow> buffer list \<Rightarrow> exchange" where
  "reply status contentRange chunks =
     Response \<lparr>statusCode = status,
       headers = \<lparr>location = None, accept_ranges = None,
                  content_length = Some (length (concat chunks)),
                  content_range = contentRange\<rparr>,
       body = chunks, complete = True\<rparr>"

text \<open>
  A server that answers HEAD with the given headers, 200 and no redirect, at every
  address.
\<close>

definition head_ok :: "headers \<Rightarrow> string \<Rightarrow> error + head_response" where
  "head_ok h url = Inr \<lparr>statusCode = 200, headers = h\<rparr>"

text \<open>
  A server on which the address made of \<open>k\<close> slashes redirects (302) to the address
  made of \<open>k + 1\<close> slashes while \<open>k < n\<close>, and the address made of \<open>n\<close> slashes
  answers 200: a chain of \<open>n\<close> redirects from the empty path.
\<close>

definition redirect_chain :: "nat \<Rightarrow> string \<Rightarrow> error + head_response" where
  "redirect_chain n url =
     (if length url < n then
        Inr \<lparr>statusCode = 302,
             headers = \<lparr>location = Some (url @ ''/''), accept_ranges = None,
                        content_length = None, content_range = None\<rparr>\<rparr>
      else
        Inr \<lparr>statusCode = 200,
             headers = \<lparr>location = None, accept_ranges = Some ''bytes'',
                        content_length = Some 10, content_range = None\<rparr>\<rparr>)"

text \<open>Locations that are absolute addresses resolve to themselves.\<close>

definition absolute :: "string \<Rightarrow> string \<Rightarrow> string option" where
  "absolute loc url = Some loc"

text \<open>A parser that reads every address as one on host \<^verbatim>\<open>h\<close>, default port, over http.\<close>

definition parse_h :: "string \<Rightarrow> url_parts option" where
  "parse_h url = Some \<lparr>url_protocol = ''http:'', url_hostname = ''h'', url_port = []\<rparr>"

section \<open>Predicates used in the statements\<close>

text \<open>
  The responses that make the \<^verbatim>\<open>try\<close> block throw a \<^verbatim>\<open>FallbackError\<close>: status
  416, or status 206 with a Content-Range header that is absent, empty or not parsed.
\<close>

definition fallback_response :: "response \<Rightarrow> bool" where
  "fallback_response res =
     (statusCode res = 416 \<or>
      (statusCode res = 206 \<and>
       (case content_range (headers res) of
          None \<Rightarrow> True
        | Some contentRange \<Rightarrow>
            contentRange = [] \<or> parseContentRange contentRange = Invalid)))"

text \<open>The session as the \<^verbatim>\<open>catch\<close> block resets it for the whole-file strategy.\<close>

definition restarted :: session where
  "restarted = \<lparr>expectedTotal = None, start = 0, downSize = 0, retries = 3,
                 useRange = False, useChunked = False\<rparr>"

section \<open>The pool of URL file boxes\<close>

text \<open>
  Modelled from the spec: \<^verbatim>\<open>FileBox.fromUrl\<close> and the pool behind it are not among
  the sources; only the tests that call them are. The pool is an insertion-ordered
  mapping from address to handle with a fixed capacity \<open>N\<close>
  (\<^verbatim>\<open>MAX_URL_FILEBOX_POOL_SIZE\<close>, a parameter here). A handle is identified by its
  creation number, so that two handles are the same instance exactly when the numbers
  are equal.
\<close>

record 'a pool =
  entries :: "('a \<times> nat) list"
  created :: nat

definition empty_pool :: "'a pool" where
  "empty_pool = \<lparr>entries = [], created = 0\<rparr>"

text \<open>Modelled from the spec: the handle the pool holds for an address, if any.\<close>

definition held :: "'a pool \<Rightarrow> 'a \<Rightarrow> nat option" where
  "held p url = map_of (entries p) url"

text \<open>Modelled from the spec: over capacity, the oldest entry leaves the pool.\<close>

definition evict :: "nat \<Rightarrow> ('a \<times> nat) list \<Rightarrow> ('a \<times> nat) list" where
  "evict N es = (if length es > N then tl es else es)"

text \<open>
  Modelled from the spec: \<open>fromUrl\<close> is \<^verbatim>\<open>get(address, unique?)\<close>. A unique lookup
  constructs a handle and leaves the pool alone; a lookup that hits returns the held
  handle and changes nothing; a lookup that misses constructs, inserts and evicts the
  oldest entry if over capacity.
\<close>

definition fromUrl :: "nat \<Rightarrow> 'a pool \<Rightarrow> 'a \<Rightarrow> bool \<Rightarrow> nat \<times> 'a pool" where
  "fromUrl N p url unique =
     (if unique then (created p, p\<lparr>created := Suc (created p)\<rparr>)
      else
        (case held p url of
           Some box \<Rightarrow> (box, p)
         | None \<Rightarrow>
             (created p,
              \<lparr>entries = evict N (entries p @ [(url, created p)]),
               created = Suc (created p)\<rparr>)))"

text \<open>
  The two tests of the repository's pool test file, \<^verbatim>\<open>should get same filebox instance\<close>
  and \<^verbatim>\<open>pool should remove old filebox instance\<close>, run one after the other against a
  pool operation \<open>get\<close> on the pool they share. The address
  \<^verbatim>\<open>http://www.baidu.com\<close> is represented by \<open>None\<close> and
  \<^verbatim>\<open>http://www.baidu.com?id=i\<close> by \<open>Some i\<close>. \<open>fill\<close> is the \<^verbatim>\<open>for\<close> loop that looks
  up the ids \<open>0 .. N - 1\<close> and pushes the handles to \<^verbatim>\<open>fileboxes\<close>. The result lists
  the four assertions in order: \<^verbatim>\<open>filebox1 === filebox2\<close>,
  \<^verbatim>\<open>filebox1 !== filebox3\<close>, \<^verbatim>\<open>filebox === fileboxes[0]\<close> and
  \<^verbatim>\<open>filebox1_1 !== filebox1_2\<close>.
\<close>

definition fill ::
  "(nat option pool \<Rightarrow> nat option \<Rightarrow> bool \<Rightarrow> nat \<times> nat option pool) \<Rightarrow> nat \<Rightarrow>
   nat option pool \<Rightarrow> nat list \<times> nat option pool" where
  "fill get N p =
     foldl (\<lambda>(fileboxes, p) i.
              case get p (Some i) False of (filebox, p') \<Rightarrow> (fileboxes @ [filebox], p'))
       ([], p) [0..<N]"

text \<open>\<^verbatim>\<open>fileboxes[i]\<close>, which is \<^verbatim>\<open>undefined\<close> beyond the end of the array.\<close>

definition element :: "nat list \<Rightarrow> nat \<Rightarrow> nat option" where
  "element xs i = (if i < length xs then Some (xs ! i) else None)"

definition pool_test ::
  "(nat option pool \<Rightarrow> nat option \<Rightarrow> bool \<Rightarrow> nat \<times> nat option pool) \<Rightarrow> nat \<Rightarrow> bool list" where
  "pool_test get N =
     (case get empty_pool None False of (filebox1, q1) \<Rightarrow>
      case get q1 None False of (filebox2, q2) \<Rightarrow>
      case get q2 None True of (filebox3, q3) \<Rightarrow>
      case fill get N q3 of (fileboxes, p1) \<Rightarrow>
      case get p1 (Some 0) False of (filebox, p2) \<Rightarrow>
      case get p2 (Some 100) False of (filebox100, p3) \<Rightarrow>
      case get p3 (Some 1) False of (filebox1_2, p4) \<Rightarrow>
        [filebox1 = filebox2, filebox1 \<noteq> filebox3,
         Some filebox = element fileboxes 0, element fileboxes 1 \<noteq> Some filebox1_2])"

text \<open>
  The entries the loop of the test creates for the ids \<open>xs\<close>: the handles \<open>0\<close> and \<open>1\<close>
  are taken by the first test, so id \<open>i\<close> gets handle \<open>i + 2\<close>.
\<close>

abbreviation (input) ids :: "nat list \<Rightarrow> (nat option \<times> nat) list" where
  "ids xs \<equiv> map (\<lambda>i. (Some i, Suc (Suc i))) xs"

section \<open>Properties of the skip transform\<close>

lemma skip_stream_concat:
  "concat (skip_stream skipBytes skipped chunks)
     = drop (nat (skipBytes - skipped)) (concat chunks)"
proof (induction chunks arbitrary: skipped)
  case Nil
  show ?case by simp
next
  case (Cons chunk rest)
  show ?case
  proof (cases "skipped < skipBytes")
    case False
    then show ?thesis by (simp add: transform_def Cons.IH)
  next
    case True
    show ?thesis
    proof (cases "int (length chunk) \<le> skipBytes - skipped")
      case True
      have "nat (skipBytes - (skipped + int (length chunk)))
              = nat (skipBytes - skipped) - length chunk"
        by simp
      with True \<open>skipped < skipBytes\<close> show ?thesis
        by (simp add: transform_def Cons.IH)
    next
      case False
      then have "nat (skipBytes - skipped) - length chunk = 0" by simp
      with False \<open>skipped < skipBytes\<close> show ?thesis
        by (simp add: transform_def Cons.IH)
    qed
  qed
qed

text \<open>
  C10. For every skip count and every sequence of input chunks, the concatenated output
  of the skip transform is the concatenated input without its first
  \<open>min s (total length)\<close> bytes; two chunkings of the same byte sequence give the same
  output bytes.
\<close>

theorem C10_skip_transform_drops_prefix:
  "concat (createSkipTransform s chunks)
     = drop (min (nat s) (length (concat chunks))) (concat chunks)
   \<and> (\<forall>chunks'. concat chunks' = concat chunks \<longrightarrow>
        concat (createSkipTransform s chunks') = concat (createSkipTransform s chunks))"
  by (simp add: createSkipTransform_def skip_stream_concat min_def)

theorem C10_skip_transform_witness:
  "concat (createSkipTransform 3 [[1, 2], [3, 4, 5]]) = [4, 5]
   \<and> concat (createSkipTransform 3 [[1], [2, 3, 4], [5]])
       = concat (createSkipTransform 3 [[1, 2], [3, 4, 5]])"
  using C10_skip_transform_drops_prefix [of 3 "[[1, 2], [3, 4, 5]]"]
  by simp

section \<open>Properties of the download loop\<close>

lemma remeasure_fields:
  "useRange (remeasure st w) = useRange st"
  "retries (remeasure st w) = retries st"
  "expectedTotal (remeasure st w) = expectedTotal st"
  "useChunked (remeasure st w) = useChunked st"
  "downSize (remeasure st w) = fileStats w"
  by (simp_all add: remeasure_def)

lemma unfinished_retries [simp]: "unfinished (st\<lparr>retries := r\<rparr>) = unfinished st"
  by (simp add: unfinished_def split: option.split)

lemma contentLength_nonneg [simp]:
  "0 \<le> (case x of None \<Rightarrow> (0::int) | Some n \<Rightarrow> int n)"
  by (simp split: option.split)

lemma attempt_206:
  "statusCode res = 206 \<Longrightarrow> attempt st w (Response res) = on_206 st w res"
  by (simp add: attempt_def allowStatusCode_def)

lemma attempt_200:
  "statusCode res = 200 \<Longrightarrow>
   attempt st w (Response res)
     = on_200 st w res (case content_length (headers res) of None \<Rightarrow> 0 | Some n \<Rightarrow> int n)"
  by (simp add: attempt_def allowStatusCode_def)

lemma sent_fields [simp]:
  "outcome (sent req r) = outcome r" "final (sent req r) = final r"
  by (simp_all add: sent_def)

lemmas eval_defs =
  downloadFileInChunks_def initial_session_def iteration_def attempt_def
  remeasure_def fileStats_def allowStatusCode_def on_206_def on_200_def range_body_def
  match_here_def strip_literal_def is_digit_def digit_value_def converted_def Number_def
  decimal_def exact_def pipeline_def recover_def is_fallback_def unfinished_def sent_def rangeHeader_def
  finalize_def fresh_world_def reply_def createSkipTransform_def transform_def

text \<open>
  C7 (as amended). Before every attempt the size of the scratch file is measured again;
  whenever it differs from the tracked count, larger or smaller, it becomes both the
  tracked count and the offset of the next Range request, and when it equals the tracked
  count nothing changes.
\<close>

theorem C7_remeasure_trusts_file_size:
  "downSize (remeasure st w) = fileStats w
   \<and> (fileStats w \<noteq> downSize st \<longrightarrow> start (remeasure st w) = fileStats w)
   \<and> (fileStats w = downSize st \<longrightarrow> remeasure st w = st)
   \<and> take 1 (requests (download_loop hostname st w (ex # exs) finish))
        = [if useRange st
           then Some (if fileStats w \<noteq> downSize st then fileStats w else start st)
           else None]"
  by (simp add: remeasure_def sent_def rangeHeader_def)

theorem C7_remeasure_witness:
  "remeasure \<lparr>expectedTotal = Some 20, start = 10, downSize = 10, retries = 3,
              useRange = True, useChunked = True\<rparr>
             \<lparr>unsupportedRangeDomains = {}, NO_SLICE_DOWN = False,
              tmpFile = Some [65, 65, 65, 65, 65]\<rparr>
     = \<lparr>expectedTotal = Some 20, start = 5, downSize = 5, retries = 3,
        useRange = True, useChunked = True\<rparr>"
  using C7_remeasure_trusts_file_size
    [of "\<lparr>expectedTotal = Some 20, start = 10, downSize = 10, retries = 3,
              useRange = True, useChunked = True\<rparr>"
        "\<lparr>unsupportedRangeDomains = {}, NO_SLICE_DOWN = False,
              tmpFile = Some [65, 65, 65, 65, 65]\<rparr>"]
  by (simp add: remeasure_def fileStats_def)

text \<open>
  C7 as stated fails: a 206 that declares bytes 0-9 but delivers five bytes leaves the
  tracked count at 10 and the file at 5 bytes; the measurement is not larger, yet the next
  request resumes at offset 5.
\<close>

theorem C7_smaller_measurement_counterexample:
  "downSize (fst (snd (iteration ''h:80'' (initial_session ''h:80'' fresh_world)
       (fresh_world\<lparr>tmpFile := Some []\<rparr>)
       (reply 206 (Some ''bytes 0-9/20'') [[65, 65, 65, 65, 65]])))) = 10
   \<and> requests (downloadFileInChunks ''h:80'' fresh_world
       [reply 206 (Some ''bytes 0-9/20'') [[65, 65, 65, 65, 65]], NoResponse] True)
     = [Some 0, Some 5]"
  by (simp add: eval_defs)

text \<open>
  C3 (as amended). A response status other than 200, 206 and 416 fails the attempt
  without touching the scratch file and is charged to the retry budget like a transport
  error: while budget remains it is decremented and, the transfer being unfinished, the
  request is sent again; when the budget is used up the scratch file is deleted and the
  fetch fails.
\<close>

theorem C3_other_status_charged_to_retries:
  assumes "statusCode res \<notin> {200, 206, 416}"
  shows "iteration hostname st w (Response res) =
           (if retries st - 1 \<le> 0
            then (Raise (ChunkFailed (StatusNotAllowed (statusCode res))),
                  (remeasure st w)\<lparr>retries := retries st - 1\<rparr>, w\<lparr>tmpFile := None\<rparr>)
            else (Next, (remeasure st w)\<lparr>retries := retries st - 1\<rparr>, w))
         \<and> (1 < retries st \<longrightarrow> unfinished (remeasure st w) \<longrightarrow>
              download_loop hostname st w (Response res # exs) finish =
                sent (rangeHeader (remeasure st w))
                  (download_loop hostname ((remeasure st w)\<lparr>retries := retries st - 1\<rparr>) w
                     exs finish))"
  using assms
  by (simp add: iteration_def attempt_def allowStatusCode_def recover_def is_fallback_def
      remeasure_fields)

theorem C3_other_status_witness:
  "iteration ''h:80'' (initial_session ''h:80'' fresh_world) (fresh_world\<lparr>tmpFile := Some []\<rparr>)
     (reply 500 None [])
   = (Next,
      \<lparr>expectedTotal = None, start = 0, downSize = 0, retries = 2, useRange = True,
       useChunked = False\<rparr>,
      fresh_world\<lparr>tmpFile := Some []\<rparr>)"
  using C3_other_status_charged_to_retries
    [of "\<lparr>statusCode = 500,
          headers = \<lparr>location = None, accept_ranges = None, content_length = Some 0,
                     content_range = None\<rparr>,
          body = [], complete = True\<rparr>"
        "''h:80''" "initial_session ''h:80'' fresh_world" "fresh_world\<lparr>tmpFile := Some []\<rparr>"
        "[]" True]
  by (simp add: reply_def initial_session_def fresh_world_def remeasure_def fileStats_def)

text \<open>
  C3 as stated fails: a 500 on the first request is followed by a second request, and the
  fetch returns the body of the 200 that answers it.
\<close>

theorem C3_status_500_retried_counterexample:
  "outcome (downloadFileInChunks ''h:80'' fresh_world
      [reply 500 None [], reply 200 None [[72, 105]]] True) = Returned (Some [72, 105])
   \<and> requests (downloadFileInChunks ''h:80'' fresh_world
      [reply 500 None [], reply 200 None [[72, 105]]] True) = [Some 0, Some 0]"
  by (simp add: eval_defs)

text \<open>
  C4 (as amended). On a 206 response the total of the first Content-Range seeds the
  expected total. A later 206 whose total differs from the expectation, smaller or
  larger, appends nothing, leaves the expectation as it is and raises a size-mismatch
  error that is charged to the retry budget like a transport error: while budget remains
  it is decremented and, the transfer being unfinished (the re-measured count is below
  the expected total), the request is sent again; when the budget is used up the scratch
  file is deleted and the fetch fails. (Totals in the range where JavaScript numbers are
  exact.)
\<close>

theorem C4_total_seeded_then_mismatch_charged_to_retries:
  assumes "statusCode res = 206"
    and "content_range (headers res) = Some cr"
    and "parseContentRange cr = Parsed r"
  shows "(expectedTotal st = None \<longrightarrow>
            expectedTotal (fst (snd (iteration hostname st w (Response res))))
              = Some (r_total r))
         \<and> (\<forall>expected. expectedTotal st = Some expected \<and> r_total r \<noteq> expected \<longrightarrow>
              iteration hostname st w (Response res) =
                (if retries st - 1 \<le> 0
                 then (Raise (ChunkFailed (SizeMismatch expected (r_total r))),
                       (remeasure st w)\<lparr>retries := retries st - 1\<rparr>, w\<lparr>tmpFile := None\<rparr>)
                 else (Next, (remeasure st w)\<lparr>retries := retries st - 1\<rparr>, w))
              \<and> (1 < retries st \<longrightarrow> unfinished (remeasure st w) \<longrightarrow>
                   download_loop hostname st w (Response res # exs) finish =
                     sent (rangeHeader (remeasure st w))
                       (download_loop hostname ((remeasure st w)\<lparr>retries := retries st - 1\<rparr>)
                          w exs finish))
              \<and> (retries st \<le> 1 \<longrightarrow>
                   download_loop hostname st w (Response res # exs) finish =
                     \<lparr>outcome = Rejected (ChunkFailed (SizeMismatch expected (r_total r))),
                      final = w\<lparr>tmpFile := None\<rparr>,
                      requests = [rangeHeader (remeasure st w)]\<rparr>))"
proof -
  from assms(3) have cr: "cr \<noteq> []" by (cases cr) auto
  have seed: "expectedTotal st = None \<Longrightarrow>
            expectedTotal (fst (snd (iteration hostname st w (Response res))))
              = Some (r_total r)"
    using assms cr
    by (simp add: iteration_def attempt_206 on_206_def range_body_def
        recover_def is_fallback_def remeasure_fields Let_def split: option.split)
  have mis: "iteration hostname st w (Response res) =
                (if retries st - 1 \<le> 0
                 then (Raise (ChunkFailed (SizeMismatch expected (r_total r))),
                       (remeasure st w)\<lparr>retries := retries st - 1\<rparr>, w\<lparr>tmpFile := None\<rparr>)
                 else (Next, (remeasure st w)\<lparr>retries := retries st - 1\<rparr>, w))"
    if "expectedTotal st = Some expected" and "r_total r \<noteq> expected" for expected
    using assms cr that
    by (simp add: iteration_def attempt_206 on_206_def recover_def is_fallback_def
        remeasure_fields)
  have again: "download_loop hostname st w (Response res # exs) finish =
                 sent (rangeHeader (remeasure st w))
                   (download_loop hostname ((remeasure st w)\<lparr>retries := retries st - 1\<rparr>)
                      w exs finish)"
    if "expectedTotal st = Some expected" and "r_total r \<noteq> expected"
      and "1 < retries st" and "unfinished (remeasure st w)" for expected
    using that by (simp add: mis)
  have fails: "download_loop hostname st w (Response res # exs) finish =
                 \<lparr>outcome = Rejected (ChunkFailed (SizeMismatch expected (r_total r))),
                  final = w\<lparr>tmpFile := None\<rparr>,
                  requests = [rangeHeader (remeasure st w)]\<rparr>"
    if "expectedTotal st = Some expected" and "r_total r \<noteq> expected"
      and "retries st \<le> 1" for expected
    using that by (simp add: mis sent_def)
  show ?thesis using seed mis again fails by blast
qed

theorem C4_mismatch_witness:
  "iteration ''h:80''
     \<lparr>expectedTotal = Some 10, start = 5, downSize = 5, retries = 3, useRange = True,
      useChunked = True\<rparr>
     (fresh_world\<lparr>tmpFile := Some [1, 2, 3, 4, 5]\<rparr>)
     (reply 206 (Some ''bytes 5-7/8'') [[6, 7, 8]])
   = (Next,
      \<lparr>expectedTotal = Some 10, start = 5, downSize = 5, retries = 2, useRange = True,
       useChunked = True\<rparr>,
      fresh_world\<lparr>tmpFile := Some [1, 2, 3, 4, 5]\<rparr>)
   \<and> download_loop ''h:80''
       \<lparr>expectedTotal = Some 10, start = 5, downSize = 5, retries = 3, useRange = True,
        useChunked = True\<rparr>
       (fresh_world\<lparr>tmpFile := Some [1, 2, 3, 4, 5]\<rparr>)
       [reply 206 (Some ''bytes 5-7/8'') [[6, 7, 8]]] True
     = \<lparr>outcome = Pending, final = fresh_world\<lparr>tmpFile := Some [1, 2, 3, 4, 5]\<rparr>,
        requests = [Some 5]\<rparr>"
  using C4_total_seeded_then_mismatch_charged_to_retries
    [of "\<lparr>statusCode = 206,
          headers = \<lparr>location = None, accept_ranges = None,
                     content_length = Some (length (concat [[6, 7, 8 :: byte]])),
                     content_range = Some ''bytes 5-7/8''\<rparr>,
          body = [[6, 7, 8]], complete = True\<rparr>"
        "''bytes 5-7/8''" "\<lparr>r_start = 5, r_end = 7, r_total = 8\<rparr>"
        "\<lparr>expectedTotal = Some 10, start = 5, downSize = 5, retries = 3, useRange = True,
          useChunked = True\<rparr>"
        "''h:80''" "fresh_world\<lparr>tmpFile := Some [1, 2, 3, 4, 5]\<rparr>" "[]" True]
  by (simp add: eval_defs)

text \<open>
  C4 as stated fails: the probe reports 10 bytes and the first 206 declares a total of 10;
  a later 206 that declares a total of 8, smaller than the probe's size, is not accepted
  (nothing of it is kept, the expectation stays 10) and does not end the fetch either:
  the request is repeated and the fetch returns all 10 bytes.
\<close>

theorem C4_smaller_total_not_accepted_counterexample:
  "outcome (httpStream
      (head_ok \<lparr>location = None, accept_ranges = Some ''bytes'', content_length = Some 10,
                content_range = None\<rparr>)
      absolute parse_h fresh_world ''http://h/a''
      [reply 206 (Some ''bytes 0-4/10'') [[1, 2, 3, 4, 5]],
       reply 206 (Some ''bytes 5-7/8'') [[6, 7, 8]],
       reply 206 (Some ''bytes 5-9/10'') [[6, 7, 8, 9, 10]]] True)
     = Returned (Some [1, 2, 3, 4, 5, 6, 7, 8, 9, 10])
   \<and> requests (httpStream
      (head_ok \<lparr>location = None, accept_ranges = Some ''bytes'', content_length = Some 10,
                content_range = None\<rparr>)
      absolute parse_h fresh_world ''http://h/a''
      [reply 206 (Some ''bytes 0-4/10'') [[1, 2, 3, 4, 5]],
       reply 206 (Some ''bytes 5-7/8'') [[6, 7, 8]],
       reply 206 (Some ''bytes 5-9/10'') [[6, 7, 8, 9, 10]]] True)
     = [Some 0, Some 5, Some 5]"
  by (simp add: httpStream_def httpHeadHeader_def head_loop.simps head_ok_def is_redirect_def
      leading_digit.simps parse_h_def hostKey_def final_address_def eval_defs)

section \<open>Fallback to the whole-file strategy\<close>

lemma attempt_fallback:
  assumes "fallback_response res"
  shows "\<exists>msg. attempt st w (Response res) = (Raise (FallbackError msg), st, w)"
  using assms
  by (auto simp add: fallback_response_def attempt_def allowStatusCode_def on_206_def
      split: option.splits)

lemma restarted_remeasure:
  "remeasure restarted (w\<lparr>tmpFile := Some []\<rparr>) = restarted"
  by (simp add: remeasure_def restarted_def fileStats_def)

text \<open>
  C5. On a 416 response, or on a 206 response whose Content-Range header is missing or
  not parsable, the host is recorded in \<^verbatim>\<open>unsupportedRangeDomains\<close> and the scratch
  file is removed. If the session was sending Range headers, it is reset (offset zero,
  no expected total, full retry budget) over a new empty scratch file, the loop goes on,
  and the next request carries no Range header. If the session was already in the
  whole-file strategy, the fetch fails for good, with the scratch file deleted.
\<close>

theorem C5_fallback_records_host_and_restarts:
  assumes "fallback_response res"
  shows "(useRange st \<longrightarrow>
            iteration hostname st w (Response res)
              = (Next, restarted,
                 w\<lparr>unsupportedRangeDomains := insert hostname (unsupportedRangeDomains w),
                   tmpFile := Some []\<rparr>)
            \<and> download_loop hostname st w (Response res # exs) finish
                = sent (Some (start (remeasure st w)))
                    (download_loop hostname restarted
                       (w\<lparr>unsupportedRangeDomains := insert hostname (unsupportedRangeDomains w),
                          tmpFile := Some []\<rparr>) exs finish)
            \<and> take 1 (requests (download_loop hostname restarted
                       (w\<lparr>unsupportedRangeDomains := insert hostname (unsupportedRangeDomains w),
                          tmpFile := Some []\<rparr>) (ex # exs) finish)) = [None])
         \<and> (\<not> useRange st \<longrightarrow>
              (\<exists>e. is_fallback e \<and>
                 download_loop hostname st w (Response res # exs) finish
                   = \<lparr>outcome = Rejected (NonChunkedFailed e),
                      final = w\<lparr>unsupportedRangeDomains :=
                                  insert hostname (unsupportedRangeDomains w),
                                tmpFile := None\<rparr>,
                      requests = [None]\<rparr>))"
proof -
  obtain msg where a: "attempt (remeasure st w) w (Response res)
      = (Raise (FallbackError msg), remeasure st w, w)"
    using attempt_fallback [OF assms] by blast
  have it: "useRange st \<Longrightarrow> iteration hostname st w (Response res)
              = (Next, restarted,
                 w\<lparr>unsupportedRangeDomains := insert hostname (unsupportedRangeDomains w),
                   tmpFile := Some []\<rparr>)"
    by (simp add: iteration_def a recover_def is_fallback_def remeasure_fields restarted_def)
  have un: "unfinished restarted" by (simp add: unfinished_def restarted_def)
  have rq: "take 1 (requests (download_loop hostname restarted
                       (w\<lparr>unsupportedRangeDomains := insert hostname (unsupportedRangeDomains w),
                          tmpFile := Some []\<rparr>) (ex # exs) finish)) = [None]"
    by (simp add: sent_def rangeHeader_def remeasure_def restarted_def)
  have no: "\<not> useRange st \<Longrightarrow> is_fallback (FallbackError msg) \<and>
                 download_loop hostname st w (Response res # exs) finish
                   = \<lparr>outcome = Rejected (NonChunkedFailed (FallbackError msg)),
                      final = w\<lparr>unsupportedRangeDomains :=
                                  insert hostname (unsupportedRangeDomains w),
                                tmpFile := None\<rparr>,
                      requests = [None]\<rparr>"
    by (simp add: iteration_def a recover_def is_fallback_def remeasure_fields sent_def
        rangeHeader_def)
  show ?thesis
    using it un rq no
    by (auto simp add: rangeHeader_def remeasure_fields)
qed

theorem C5_fallback_witness:
  "iteration ''h:80'' (initial_session ''h:80'' fresh_world) (fresh_world\<lparr>tmpFile := Some []\<rparr>)
     (reply 206 (Some ''invalid format'') [[72, 105]])
   = (Next, restarted,
      \<lparr>unsupportedRangeDomains = {''h:80''}, NO_SLICE_DOWN = False, tmpFile = Some []\<rparr>)
   \<and> download_loop ''h:80'' restarted (fresh_world\<lparr>tmpFile := Some []\<rparr>)
       [reply 416 None []] True
     = \<lparr>outcome = Rejected (NonChunkedFailed (FallbackError ''416 Range Not Satisfiable'')),
        final = \<lparr>unsupportedRangeDomains = {''h:80''}, NO_SLICE_DOWN = False, tmpFile = None\<rparr>,
        requests = [None]\<rparr>"
  using C5_fallback_records_host_and_restarts
    [of "\<lparr>statusCode = 206,
          headers = \<lparr>location = None, accept_ranges = None,
                     content_length = Some (length (concat [[72, 105 :: byte]])),
                     content_range = Some ''invalid format''\<rparr>,
          body = [[72, 105]], complete = True\<rparr>"
        "initial_session ''h:80'' fresh_world" "''h:80''" "fresh_world\<lparr>tmpFile := Some []\<rparr>"
        "[]" True NoResponse]
  by (simp add: fallback_response_def eval_defs restarted_def)

section \<open>Ranges that do not start where requested\<close>

lemma remeasure_start_eq:
  "start st = downSize st \<Longrightarrow> start (remeasure st w) = downSize (remeasure st w)"
  by (simp add: remeasure_def)

text \<open>The numbers of a parsed header are natural numbers in the exact range.\<close>

lemma foldl_decimal_nonneg:
  "0 \<le> n \<Longrightarrow>
   0 \<le> foldl (\<lambda>n c. 10 * n + (case digit_value c of None \<Rightarrow> 0 | Some d \<Rightarrow> int d)) n ds"
  by (induction ds arbitrary: n) (auto split: option.splits)

lemma Number_bounds: "Number ds = Some n \<Longrightarrow> 0 \<le> n \<and> n \<le> 2 ^ 53"
  using foldl_decimal_nonneg [of 0 ds]
  by (auto simp add: Number_def decimal_def exact_def split: if_splits)

lemma converted_bounds:
  assumes "converted d1 d2 d3 = Parsed r"
  shows "0 \<le> r_start r \<and> r_start r \<le> 2 ^ 53 \<and> 0 \<le> r_end r \<and> r_end r \<le> 2 ^ 53
         \<and> 0 \<le> r_total r \<and> r_total r \<le> 2 ^ 53"
  using assms Number_bounds [of d1] Number_bounds [of d2] Number_bounds [of d3]
  by (auto simp add: converted_def split: option.splits)

lemma match_here_bounds:
  assumes "match_here s = Parsed r"
  shows "0 \<le> r_start r \<and> r_start r \<le> 2 ^ 53 \<and> 0 \<le> r_end r \<and> r_end r \<le> 2 ^ 53
         \<and> 0 \<le> r_total r \<and> r_total r \<le> 2 ^ 53"
  using assms
  by (auto simp add: match_here_def Let_def split: option.splits if_splits
      dest: converted_bounds)

lemma parse_bounds:
  "parseContentRange cr = Parsed r \<Longrightarrow>
   0 \<le> r_start r \<and> r_start r \<le> 2 ^ 53 \<and> 0 \<le> r_end r \<and> r_end r \<le> 2 ^ 53
   \<and> 0 \<le> r_total r \<and> r_total r \<le> 2 ^ 53"
proof (induction cr)
  case Nil
  then show ?case by simp
next
  case (Cons c cs)
  show ?case
  proof (cases "match_here (c # cs)")
    case Invalid
    with Cons show ?thesis by simp
  next
    case Inexact
    with Cons.prems show ?thesis by simp
  next
    case (Parsed r')
    with Cons.prems have "match_here (c # cs) = Parsed r" by simp
    then show ?thesis by (rule match_here_bounds)
  qed
qed

lemma on_206_accepted:
  assumes "content_range (headers res) = Some cr"
    and "parseContentRange cr = Parsed r"
    and "expectedTotal st = None \<or> expectedTotal st = Some (r_total r)"
  shows "on_206 st w res
           = range_body (st\<lparr>expectedTotal := Some (r_total r), useChunked := True\<rparr>) w res r"
proof -
  from assms(2) have cr: "cr \<noteq> []" by (cases cr) auto
  show ?thesis
  proof (cases "expectedTotal st")
    case None
    with assms cr show ?thesis by (simp add: on_206_def)
  next
    case (Some expected)
    with assms(3) have e: "expected = r_total r" by simp
    have u: "st\<lparr>useChunked := True\<rparr>
               = st\<lparr>expectedTotal := Some (r_total r), useChunked := True\<rparr>"
      using Some e by (cases st) simp
    have k: "on_206 st w res = range_body (st\<lparr>useChunked := True\<rparr>) w res r"
      using assms cr Some e by (simp add: on_206_def)
    show ?thesis unfolding u [symmetric] by (rule k)
  qed
qed

text \<open>
  The session keeps its resume offset equal to its tracked count: this holds when the
  session starts and after every pass that reaches the loop condition.
\<close>

lemma range_body_offset:
  "start st = downSize st \<Longrightarrow> range_body st w res r = (c, st', w') \<Longrightarrow>
   start st' = downSize st'"
  by (auto simp add: range_body_def Let_def split: if_splits)

lemma on_206_offset:
  "start st = downSize st \<Longrightarrow> on_206 st w res = (c, st', w') \<Longrightarrow> start st' = downSize st'"
  by (auto simp add: on_206_def split: option.splits parsed.splits if_splits
      dest: range_body_offset [rotated])

lemma attempt_offset:
  assumes "start st = downSize st" and "attempt st w ex = (c, st', w')" and "c \<noteq> Break"
  shows "start st' = downSize st'"
proof (cases ex)
  case NoResponse
  with assms show ?thesis by (simp add: attempt_def)
next
  case (Response res)
  show ?thesis
  proof (cases "statusCode res = 206")
    case True
    with assms Response show ?thesis
      using on_206_offset [of st w res c st' w'] by (simp add: attempt_206)
  next
    case False
    with assms Response show ?thesis
      by (auto simp add: attempt_def on_200_def Let_def split: if_splits)
  qed
qed

lemma recover_offset:
  "start st = downSize st \<Longrightarrow> recover hostname e st w = (c, st', w') \<Longrightarrow>
   start st' = downSize st'"
  by (auto simp add: recover_def Let_def split: if_splits)

lemma offset_tracks_count:
  assumes "start st = downSize st" and "iteration hostname st w ex = (Next, st', w')"
  shows "start st' = downSize st'"
proof -
  obtain c st1 w1 where a: "attempt (remeasure st w) w ex = (c, st1, w1)"
    by (cases "attempt (remeasure st w) w ex") auto
  have m: "start (remeasure st w) = downSize (remeasure st w)"
    using assms(1) by (simp add: remeasure_def)
  show ?thesis
  proof (cases c)
    case Next
    with a assms(2) have "st1 = st'" by (simp add: iteration_def)
    with attempt_offset [OF m a] Next show ?thesis by simp
  next
    case Break
    with a assms(2) show ?thesis by (simp add: iteration_def)
  next
    case (Raise e)
    with attempt_offset [OF m a] have s1: "start st1 = downSize st1" by simp
    from a Raise assms(2) have "recover hostname e st1 w1 = (Next, st', w')"
      by (simp add: iteration_def)
    with s1 show ?thesis by (rule recover_offset)
  next
    case Beyond
    with a assms(2) show ?thesis by (simp add: iteration_def)
  qed
qed

lemma initial_offset: "start (initial_session hostname w) = downSize (initial_session hostname w)"
  by (simp add: initial_session_def)

text \<open>
  C6 (as amended). On a 206 response whose total is accepted and whose Content-Range
  start differs from the requested offset: if the returned start is earlier, exactly the
  first (requested start minus returned start) bytes of the body are dropped before the
  rest is appended to the scratch file, and the resume offset advances by the consumed
  span (returned end + 1 minus requested start); this for a body that arrives whole and
  offsets in the range where JavaScript numbers are exact. If the returned start is
  later, nothing is appended and a gap error is raised, which is charged to the retry
  budget like a transport error: while budget remains it is decremented and, the transfer
  being unfinished (the re-measured count is below the declared total), the request is
  sent again; when the budget is used up the scratch file is deleted and the fetch fails.
\<close>

theorem C6_overlap_sliced_gap_charged_to_retries:
  assumes "statusCode res = 206"
    and "content_range (headers res) = Some cr"
    and "parseContentRange cr = Parsed r"
    and "expectedTotal st = None \<or> expectedTotal st = Some (r_total r)"
    and "start st = downSize st"
  shows "(r_start r < start (remeasure st w) \<and> complete res
           \<and> start (remeasure st w) \<le> 2 ^ 53 \<and> r_end r < 2 ^ 53 \<longrightarrow>
            (\<exists>st'. iteration hostname st w (Response res)
                     = (Next, st',
                        pipeline [drop (nat (start (remeasure st w) - r_start r))
                                    (concat (body res))] w)
                \<and> start st' = start (remeasure st w) + (r_end r + 1 - start (remeasure st w))
                \<and> downSize st' = start st'))
         \<and> (start (remeasure st w) < r_start r \<longrightarrow>
              iteration hostname st w (Response res) =
                (if retries st - 1 \<le> 0
                 then (Raise (ChunkFailed (RangeGap (start (remeasure st w)) (r_start r))),
                       (remeasure st w)\<lparr>expectedTotal := Some (r_total r), useChunked := True,
                                        retries := retries st - 1\<rparr>,
                       w\<lparr>tmpFile := None\<rparr>)
                 else (Next,
                       (remeasure st w)\<lparr>expectedTotal := Some (r_total r), useChunked := True,
                                        retries := retries st - 1\<rparr>,
                       w))
              \<and> (1 < retries st \<longrightarrow> downSize (remeasure st w) < r_total r \<longrightarrow>
                   download_loop hostname st w (Response res # exs) finish =
                     sent (rangeHeader (remeasure st w))
                       (download_loop hostname
                          ((remeasure st w)\<lparr>expectedTotal := Some (r_total r),
                                            useChunked := True, retries := retries st - 1\<rparr>)
                          w exs finish))
              \<and> (retries st \<le> 1 \<longrightarrow>
                   download_loop hostname st w (Response res # exs) finish =
                     \<lparr>outcome = Rejected (ChunkFailed
                                  (RangeGap (start (remeasure st w)) (r_start r))),
                      final = w\<lparr>tmpFile := None\<rparr>,
                      requests = [rangeHeader (remeasure st w)]\<rparr>))"
proof -
  note b = parse_bounds [OF assms(3)]
  have acc: "expectedTotal (remeasure st w) = None
               \<or> expectedTotal (remeasure st w) = Some (r_total r)"
    using assms(4) by (simp add: remeasure_fields)
  have a: "attempt (remeasure st w) w (Response res)
             = range_body ((remeasure st w)\<lparr>expectedTotal := Some (r_total r),
                                            useChunked := True\<rparr>) w res r"
    using attempt_206 [OF assms(1)] on_206_accepted [OF assms(2) assms(3) acc] by simp
  have eq: "start (remeasure st w) = downSize (remeasure st w)"
    using assms(5) by (rule remeasure_start_eq)
  have overlap: "\<exists>st'. iteration hostname st w (Response res)
                     = (Next, st',
                        pipeline [drop (nat (start (remeasure st w) - r_start r))
                                    (concat (body res))] w)
                \<and> start st' = start (remeasure st w) + (r_end r + 1 - start (remeasure st w))
                \<and> downSize st' = start st'"
    if "r_start r < start (remeasure st w)" and "complete res"
      and "start (remeasure st w) \<le> 2 ^ 53" and "r_end r < 2 ^ 53"
  proof -
    have g: "exact (start (remeasure st w) - r_start r)"
      "exact (r_end r - r_start r + 1)"
      "exact (r_end r - r_start r + 1 - (start (remeasure st w) - r_start r))"
      "exact (downSize (remeasure st w)
              + (r_end r - r_start r + 1 - (start (remeasure st w) - r_start r)))"
      using b that eq by (simp_all add: exact_def)
    show ?thesis
      using that(1) that(2) eq g
      by (simp add: iteration_def a range_body_def Let_def pipeline_def
          createSkipTransform_def skip_stream_concat)
  qed
  have gap: "iteration hostname st w (Response res) =
                (if retries st - 1 \<le> 0
                 then (Raise (ChunkFailed (RangeGap (start (remeasure st w)) (r_start r))),
                       (remeasure st w)\<lparr>expectedTotal := Some (r_total r), useChunked := True,
                                        retries := retries st - 1\<rparr>,
                       w\<lparr>tmpFile := None\<rparr>)
                 else (Next,
                       (remeasure st w)\<lparr>expectedTotal := Some (r_total r), useChunked := True,
                                        retries := retries st - 1\<rparr>,
                       w))"
    if "start (remeasure st w) < r_start r"
    using that
    by (simp add: iteration_def a range_body_def recover_def is_fallback_def remeasure_fields)
  have again: "download_loop hostname st w (Response res # exs) finish =
                 sent (rangeHeader (remeasure st w))
                   (download_loop hostname
                      ((remeasure st w)\<lparr>expectedTotal := Some (r_total r),
                                        useChunked := True, retries := retries st - 1\<rparr>)
                      w exs finish)"
    if "start (remeasure st w) < r_start r" and "1 < retries st"
      and "downSize (remeasure st w) < r_total r"
    using that by (simp add: gap unfinished_def)
  have fails: "download_loop hostname st w (Response res # exs) finish =
                 \<lparr>outcome = Rejected (ChunkFailed
                              (RangeGap (start (remeasure st w)) (r_start r))),
                  final = w\<lparr>tmpFile := None\<rparr>,
                  requests = [rangeHeader (remeasure st w)]\<rparr>"
    if "start (remeasure st w) < r_start r" and "retries st \<le> 1"
    using that by (simp add: gap sent_def)
  show ?thesis using overlap gap again fails by blast
qed

theorem C6_overlap_witness:
  "iteration ''h:80''
     \<lparr>expectedTotal = Some 10, start = 5, downSize = 5, retries = 3, useRange = True,
      useChunked = True\<rparr>
     (fresh_world\<lparr>tmpFile := Some [1, 2, 3, 4, 5]\<rparr>)
     (reply 206 (Some ''bytes 3-9/10'') [[4, 5, 6], [7, 8, 9, 10]])
   = (Next,
      \<lparr>expectedTotal = Some 10, start = 10, downSize = 10, retries = 3, useRange = True,
       useChunked = True\<rparr>,
      fresh_world\<lparr>tmpFile := Some [1, 2, 3, 4, 5, 6, 7, 8, 9, 10]\<rparr>)
   \<and> download_loop ''h:80''
       \<lparr>expectedTotal = Some 10, start = 5, downSize = 5, retries = 3, useRange = True,
        useChunked = True\<rparr>
       (fresh_world\<lparr>tmpFile := Some [1, 2, 3, 4, 5]\<rparr>)
       [reply 206 (Some ''bytes 7-9/10'') [[8, 9, 10]]] True
     = \<lparr>outcome = Pending, final = fresh_world\<lparr>tmpFile := Some [1, 2, 3, 4, 5]\<rparr>,
        requests = [Some 5]\<rparr>"
  using C6_overlap_sliced_gap_charged_to_retries
    [of "\<lparr>statusCode = 206,
          headers = \<lparr>location = None, accept_ranges = None,
                     content_length = Some (length (concat [[4, 5, 6], [7, 8, 9, 10 :: byte]])),
                     content_range = Some ''bytes 3-9/10''\<rparr>,
          body = [[4, 5, 6], [7, 8, 9, 10]], complete = True\<rparr>"
        "''bytes 3-9/10''" "\<lparr>r_start = 3, r_end = 9, r_total = 10\<rparr>"
        "\<lparr>expectedTotal = Some 10, start = 5, downSize = 5, retries = 3, useRange = True,
          useChunked = True\<rparr>"
        "fresh_world\<lparr>tmpFile := Some [1, 2, 3, 4, 5]\<rparr>" "''h:80''" "[]" True]
  by (simp add: eval_defs)

text \<open>
  C6 as stated fails: a first 206 that starts at byte 5 where byte 0 was requested does not
  end the fetch; the request is sent again and the fetch returns the ten bytes of the
  second response.
\<close>

theorem C6_gap_retried_counterexample:
  "outcome (downloadFileInChunks ''h:80'' fresh_world
      [reply 206 (Some ''bytes 5-9/10'') [[6, 7, 8, 9, 10]],
       reply 206 (Some ''bytes 0-9/10'') [[1, 2, 3, 4, 5, 6, 7, 8, 9, 10]]] True)
     = Returned (Some [1, 2, 3, 4, 5, 6, 7, 8, 9, 10])
   \<and> requests (downloadFileInChunks ''h:80'' fresh_world
      [reply 206 (Some ''bytes 5-9/10'') [[6, 7, 8, 9, 10]],
       reply 206 (Some ''bytes 0-9/10'') [[1, 2, 3, 4, 5, 6, 7, 8, 9, 10]]] True)
     = [Some 0, Some 0]"
  by (simp add: eval_defs)

section \<open>The scratch file on failure\<close>

lemma recover_raise:
  "recover hostname e st w = (Raise e', st', w') \<Longrightarrow> tmpFile w' = None \<and> e' \<noteq> FinishFailed"
  by (auto simp add: recover_def Let_def split: if_splits)

lemma iteration_raise:
  assumes "iteration hostname st w ex = (Raise e, st', w')"
  shows "tmpFile w' = None \<and> e \<noteq> FinishFailed"
proof (cases "attempt (remeasure st w) w ex")
  case (fields c st1 w1)
  show ?thesis
  proof (cases c)
    case (Raise e0)
    with fields assms have "recover hostname e0 st1 w1 = (Raise e, st', w')"
      by (simp add: iteration_def)
    then show ?thesis by (rule recover_raise)
  next
    case Next
    with fields assms show ?thesis by (simp add: iteration_def)
  next
    case Break
    with fields assms show ?thesis by (simp add: iteration_def)
  next
    case Beyond
    with fields assms show ?thesis by (simp add: iteration_def)
  qed
qed

lemma finalize_rejected:
  "outcome (finalize w finish) = Rejected e \<Longrightarrow> e = FinishFailed"
  by (simp add: finalize_def split: if_splits)

lemma loop_rejection_deletes_scratch:
  "outcome (download_loop hostname st w exs finish) = Rejected e \<Longrightarrow> e \<noteq> FinishFailed \<Longrightarrow>
   tmpFile (final (download_loop hostname st w exs finish)) = None"
proof (induction exs arbitrary: st w)
  case Nil
  then show ?case by simp
next
  case (Cons ex exs)
  obtain c st' w' where it: "iteration hostname st w ex = (c, st', w')"
    by (cases "iteration hostname st w ex") auto
  show ?case
  proof (cases c)
    case (Raise e0)
    with it iteration_raise [of hostname st w ex e0 st' w'] show ?thesis by simp
  next
    case Break
    with it Cons.prems finalize_rejected [of w' finish e] show ?thesis by auto
  next
    case Beyond
    with it Cons.prems show ?thesis by simp
  next
    case Next
    show ?thesis
    proof (cases "unfinished st'")
      case True
      with it Next Cons.prems Cons.IH [of st' w'] show ?thesis by simp
    next
      case False
      with it Next Cons.prems finalize_rejected [of w' finish e] show ?thesis by auto
    qed
  qed
qed

text \<open>
  C9. Every error path that ends a fetch should delete the scratch file first. The two
  rejections raised inside the loop do (lemma \<open>loop_rejection_deletes_scratch\<close>), but
  the rejection of \<^verbatim>\<open>once(writeStream, 'finish', { signal })\<close> after the loop is
  passed on with the scratch file still in place: here a 200 response is written whole,
  the sink fails while it is flushed, and the fetch rejects leaving the two bytes on disk.
\<close>

theorem C9_finish_failure_keeps_scratch_file:
  "downloadFileInChunks ''h:80'' fresh_world [reply 200 None [[72, 105]]] False
     = \<lparr>outcome = Rejected FinishFailed,
        final = \<lparr>unsupportedRangeDomains = {}, NO_SLICE_DOWN = False,
                 tmpFile = Some [72, 105]\<rparr>,
        requests = [Some 0]\<rparr>"
  by (simp add: eval_defs)

section \<open>Properties of the header probe\<close>

lemma redirect_requires_location:
  assumes "net url = Inr res" and "is_redirect (statusCode res)"
    and "location (headers res) = None \<or> location (headers res) = Some []"
  shows "httpHeadHeader net resolve url = Inl NoLocation"
  using assms by (auto simp add: httpHeadHeader_def head_loop.simps)

lemma redirect_resolved_against_current:
  assumes "net url = Inr res" and "is_redirect (statusCode res)"
    and "location (headers res) = Some loc" and "loc \<noteq> []"
    and "resolve loc url = Some target" and "0 < ttl"
  shows "head_loop net resolve originUrl ttl url = head_loop net resolve originUrl (ttl - 1) target"
  using assms by (subst head_loop.simps) simp

text \<open>
  On the chain of \<open>n\<close> redirects the probe reaches the terminal response exactly when
  \<open>n < 7\<close>.
\<close>

lemma head_loop_chain:
  "length url \<le> n \<Longrightarrow>
   head_loop (redirect_chain n) absolute originUrl ttl url
     = (if int (n - length url) < ttl
        then Inr (if originUrl \<noteq> url @ replicate (n - length url) CHR ''/''
                  then \<lparr>location = Some (url @ replicate (n - length url) CHR ''/''),
                        accept_ranges = Some ''bytes'', content_length = Some 10,
                        content_range = None\<rparr>
                  else \<lparr>location = None, accept_ranges = Some ''bytes'',
                        content_length = Some 10, content_range = None\<rparr>)
        else Inl TtlExpired)"
proof (induction "n - length url" arbitrary: url ttl)
  case 0
  then have "length url = n" by simp
  then show ?case
    by (subst head_loop.simps)
       (simp add: redirect_chain_def is_redirect_def leading_digit.simps)
next
  case (Suc k)
  then have lt: "length url < n" and k: "k = n - length (url @ ''/'')"
    and le: "length (url @ ''/'') \<le> n"
    by simp_all
  have rep: "(url @ ''/'') @ replicate (n - length (url @ ''/'')) CHR ''/''
               = url @ replicate (n - length url) CHR ''/''"
    using lt by (simp add: Suc_diff_Suc replicate_append_same flip: replicate_Suc)
  have step: "0 < ttl \<Longrightarrow> head_loop (redirect_chain n) absolute originUrl ttl url
                = head_loop (redirect_chain n) absolute originUrl (ttl - 1) (url @ ''/'')"
    using lt
    by (subst head_loop.simps)
       (simp add: redirect_chain_def is_redirect_def leading_digit.simps absolute_def)
  show ?case
  proof (cases "0 < ttl")
    case False
    then show ?thesis by (subst head_loop.simps) simp
  next
    case True
    have "int (n - length (url @ ''/'')) < ttl - 1 \<longleftrightarrow> int (n - length url) < ttl"
      using lt by auto
    with step [OF True] Suc.hyps(1) [OF k le, of "ttl - 1"] rep show ?thesis
      by simp
  qed
qed

lemma probe_follows_at_most_six_redirects:
  "httpHeadHeader (redirect_chain n) absolute []
     = (if n < 7
        then Inr (if n = 0
                  then \<lparr>location = None, accept_ranges = Some ''bytes'',
                        content_length = Some 10, content_range = None\<rparr>
                  else \<lparr>location = Some (replicate n CHR ''/''),
                        accept_ranges = Some ''bytes'', content_length = Some 10,
                        content_range = None\<rparr>)
        else Inl TtlExpired)"
  using head_loop_chain [of "[]" n "[]" 7]
  by (auto simp add: httpHeadHeader_def)

text \<open>
  C8. The probe should follow up to 7 redirect hops. \<^verbatim>\<open>REDIRECT_TTL\<close> bounds the
  passes of the loop, that is the requests, so a chain of 7 redirects is rejected as
  expired after the seventh response although no eighth redirect was seen, and only a
  chain of at most 6 redirects reaches its terminal response.
\<close>

theorem C8_seventh_redirect_not_followed:
  "httpHeadHeader (redirect_chain 7) absolute [] = Inl TtlExpired
   \<and> httpHeadHeader (redirect_chain 6) absolute []
       = Inr \<lparr>location = Some ''//////'', accept_ranges = Some ''bytes'',
              content_length = Some 10, content_range = None\<rparr>"
  by (simp add: httpHeadHeader_def head_loop.simps redirect_chain_def absolute_def
      is_redirect_def leading_digit.simps)

section \<open>The strategy of the first request\<close>

text \<open>
  C1 (as amended). When the no-slice override is not set, the first request of a fetch
  carries a Range header (from offset zero) if and only if the host key of the target is
  not in the negative cache, whatever the probe reported about range support and size;
  when the host key is in the cache, the first request is a whole-file request.
\<close>

theorem C1_range_attempted_unless_host_cached:
  assumes "httpHeadHeader net resolve url = Inr headHeaders"
    and "parse (final_address headHeaders url) = Some u"
    and "url_protocol u \<in> {''http:'', ''https:''}"
    and "\<not> NO_SLICE_DOWN w"
  shows "take 1 (requests (httpStream net resolve parse w url (ex # exs) finish))
           = [if hostKey u \<in> unsupportedRangeDomains w then None else Some 0]"
  using assms
  by (auto simp add: httpStream_def downloadFileInChunks_def initial_session_def sent_def
      rangeHeader_def remeasure_def fileStats_def)

theorem C1_range_attempted_witness:
  "take 1 (requests (httpStream
      (head_ok \<lparr>location = None, accept_ranges = Some ''bytes'', content_length = Some 2,
                content_range = None\<rparr>)
      absolute parse_h (fresh_world\<lparr>unsupportedRangeDomains := {''h:80''}\<rparr>) ''http://h/a''
      [reply 200 None [[72, 105]]] True)) = [None]"
  using C1_range_attempted_unless_host_cached
    [of "head_ok \<lparr>location = None, accept_ranges = Some ''bytes'', content_length = Some 2,
                content_range = None\<rparr>" absolute "''http://h/a''"
        "\<lparr>location = None, accept_ranges = Some ''bytes'', content_length = Some 2,
                content_range = None\<rparr>"
        parse_h "\<lparr>url_protocol = ''http:'', url_hostname = ''h'', url_port = []\<rparr>"
        "fresh_world\<lparr>unsupportedRangeDomains := {''h:80''}\<rparr>"
        "reply 200 None [[72, 105]]" "[]" True]
  by (simp add: httpHeadHeader_def head_loop.simps head_ok_def is_redirect_def
      leading_digit.simps parse_h_def hostKey_def fresh_world_def final_address_def)

text \<open>
  C1 as stated fails: the probe reports neither range support nor a size, and the first
  request still asks for \<^verbatim>\<open>bytes=0-\<close>.
\<close>

theorem C1_range_without_probe_support_counterexample:
  "requests (httpStream
      (head_ok \<lparr>location = None, accept_ranges = None, content_length = None,
                content_range = None\<rparr>)
      absolute parse_h fresh_world ''http://h/a''
      [reply 200 None [[72, 105]]] True) = [Some 0]"
  by (simp add: httpStream_def httpHeadHeader_def head_loop.simps head_ok_def is_redirect_def
      leading_digit.simps parse_h_def hostKey_def final_address_def eval_defs)

section \<open>Properties of the pool\<close>




text \<open>
  The test file of the repository expects otherwise in one place. Its first three
  assertions hold on this pool, and its last one,
  \<^verbatim>\<open>filebox1_1 !== filebox1_2\<close> (after id 0 is looked up again and id 100 is inserted,
  id 1 is expected to have left the pool), does not, at every capacity from 2 to 100.
\<close>

lemma map_of_ids:
  "map_of (ids xs) (Some k) = (if k \<in> set xs then Some (Suc (Suc k)) else None)"
  by (induction xs) auto

lemma fill_prefix_fromUrl:
  "k < N \<Longrightarrow>
   foldl (\<lambda>(fileboxes, p) i.
            case fromUrl N p (Some i) False of (filebox, p') \<Rightarrow> (fileboxes @ [filebox], p'))
     ([], \<lparr>entries = [(None, 0)], created = 2\<rparr>) [0..<k]
   = (map (\<lambda>i. Suc (Suc i)) [0..<k],
      \<lparr>entries = (None, 0) # ids [0..<k], created = Suc (Suc k)\<rparr>)"
proof (induction k)
  case 0
  show ?case by (simp add: numeral_2_eq_2)
next
  case (Suc k)
  then show ?case
    by (simp add: fromUrl_def held_def map_of_ids evict_def)
qed

lemma fill_fromUrl:
  assumes "0 < N"
  shows "fill (fromUrl N) N \<lparr>entries = [(None, 0)], created = 2\<rparr>
           = (map (\<lambda>i. Suc (Suc i)) [0..<N],
              \<lparr>entries = ids [0..<N], created = Suc (Suc N)\<rparr>)"
proof -
  obtain k where N: "N = Suc k" using assms by (cases N) auto
  have "k < N" using N by simp
  from fill_prefix_fromUrl [OF this] show ?thesis
    by (simp add: fill_def N fromUrl_def held_def map_of_ids evict_def)
qed

lemma upt_two: "2 \<le> N \<Longrightarrow> [0..<N] = 0 # Suc 0 # [2..<N]"
  by (simp add: upt_rec [of 0] upt_rec [of "Suc 0"] numeral_2_eq_2)

lemma pool_test_fromUrl:
  assumes "2 \<le> N" and "N \<le> 100"
  shows "pool_test (fromUrl N) N = [True, True, True, False]"
proof -
  let ?q = "\<lparr>entries = [(None, 0 :: nat)], created = 2\<rparr> :: nat option pool"
  have e: "evict N [(None :: nat option, 0 :: nat)] = [(None, 0)]"
    using assms by (simp add: evict_def)
  have s1: "fromUrl N (empty_pool :: nat option pool) None False
              = (0, \<lparr>entries = [(None, 0)], created = Suc 0\<rparr>)"
    by (simp add: fromUrl_def held_def empty_pool_def e)
  have s2: "fromUrl N \<lparr>entries = [(None :: nat option, 0)], created = Suc 0\<rparr> None False
              = (0, \<lparr>entries = [(None, 0)], created = Suc 0\<rparr>)"
    by (simp add: fromUrl_def held_def)
  have s3: "fromUrl N \<lparr>entries = [(None, 0)], created = Suc 0\<rparr> None True = (Suc 0, ?q)"
    by (simp add: fromUrl_def numeral_2_eq_2)
  have f: "fill (fromUrl N) N ?q
             = (map (\<lambda>i. Suc (Suc i)) [0..<N],
                \<lparr>entries = ids [0..<N], created = Suc (Suc N)\<rparr>)"
    using assms by (intro fill_fromUrl) simp
  have g0: "fromUrl N \<lparr>entries = ids [0..<N], created = Suc (Suc N)\<rparr> (Some 0) False
              = (2, \<lparr>entries = ids [0..<N], created = Suc (Suc N)\<rparr>)"
    using assms by (simp add: fromUrl_def held_def map_of_ids numeral_2_eq_2)
  have g100: "fromUrl N \<lparr>entries = ids [0..<N], created = Suc (Suc N)\<rparr> (Some 100) False
              = (Suc (Suc N),
                 \<lparr>entries = (Some (Suc 0), 3) # ids [2..<N] @ [(Some 100, Suc (Suc N))],
                  created = Suc (Suc (Suc N))\<rparr>)"
  proof -
    have "held \<lparr>entries = ids [0..<N], created = Suc (Suc N)\<rparr> (Some 100) = None"
      using assms by (simp add: held_def map_of_ids)
    then show ?thesis
      using assms by (simp add: fromUrl_def evict_def upt_two numeral_3_eq_3)
  qed
  have g1: "fst (fromUrl N
                 \<lparr>entries = (Some (Suc 0), 3) # ids [2..<N] @ [(Some 100, Suc (Suc N))],
                  created = Suc (Suc (Suc N))\<rparr> (Some (Suc 0)) False) = 3"
    by (simp add: fromUrl_def held_def)
  show ?thesis
    using assms g1
    by (auto simp add: pool_test_def s1 s2 s3 f g0 g100 element_def numeral_3_eq_3
        split: prod.splits)
qed

end
